theory Spec2Isabelle
  imports Main
begin

section \<open>Region-of-interest builders of plantcv (roi/roi_methods.py)\<close>

subsection \<open>Data\<close>

text \<open>
  A contour is an ordered sequence of integer points; a hierarchy has one entry per
  contour: next sibling, previous sibling, first child, parent (-1 for none). OpenCV
  wraps the hierarchy in one more singleton axis, which the model leaves out. An image
  or mask is its number of columns and the list of its rows of intensities, so that an
  array with no rows keeps its width, as a numpy array of shape (0, w) does; of the
  reference image only its shape is read. Python integers are \<open>int\<close>; an argument
  that may be None is an option.
\<close>

type_synonym point = "int \<times> int"
type_synonym contour = "point list"
type_synonym hier_entry = "int \<times> int \<times> int \<times> int"
type_synonym hierarchy = "hier_entry list"

datatype ndarray = Ndarray (n_cols: nat) (rows_of: "nat list list")

datatype retr_mode = RETR_EXTERNAL | RETR_TREE

text \<open>
  The OpenCV primitives the module calls are external: they are parameters of the
  model. \<open>cv_circle img center radius color thickness\<close> and
  \<open>cv_ellipse img center axes angle startAngle endAngle color thickness\<close> return the
  image they drew on; \<open>findContours img mode\<close> is always called with
  CHAIN_APPROX_NONE and returns the contour list and the hierarchy (the last two
  components of OpenCV's result, as the source's \<^verbatim>\<open>[-2:]\<close> selects them). The
  primitives, and \<^verbatim>\<open>print_image\<close> and \<^verbatim>\<open>plot_image\<close>, are taken to return: an
  error they raise themselves is outside the model.
\<close>

record cv2 =
  cv_circle :: "ndarray \<Rightarrow> point \<Rightarrow> int \<Rightarrow> nat \<Rightarrow> int \<Rightarrow> ndarray"
  cv_ellipse :: "ndarray \<Rightarrow> point \<Rightarrow> point \<Rightarrow> int \<Rightarrow> int \<Rightarrow> int \<Rightarrow> nat \<Rightarrow> int \<Rightarrow> ndarray"
  findContours :: "ndarray \<Rightarrow> retr_mode \<Rightarrow> contour list \<times> hierarchy"

text \<open>
  The process-wide context: the three fields of \<^verbatim>\<open>params\<close> the module touches,
  and the images handed to \<^verbatim>\<open>print_image\<close> and \<^verbatim>\<open>plot_image\<close> so far. A printed
  image is recorded by the output directory and the device number of its file name
  (\<^verbatim>\<open>os.path.join(debug_outdir, str(device) + "_roi.png")\<close>) and the contours drawn.
\<close>

datatype draw_event = Printed string int "contour list" | Plotted "contour list"

record state =
  device :: int
  debug :: "string option"
  debug_outdir :: string
  outputs :: "draw_event list"

datatype error = RuntimeError string | TypeError | IndexError | UnboundLocalError | OverflowError

text \<open>
  Modelled from the spec: \<^verbatim>\<open>fatal_error\<close> is imported from the package and is not part
  of roi_methods.py; by section 7 of the specification every error is fatal to the
  current call and surfaces immediately to the caller. It raises an error carrying
  the message.
\<close>

definition fatal_error :: "string \<Rightarrow> error" where
  "fatal_error msg = RuntimeError msg"

definition not_binary_msg :: string where
  "not_binary_msg = ''Input image is not binary!''"

definition outside_msg :: string where
  "outside_msg = ''The ROI extends outside of the image!''"

definition mode_msg :: string where
  "mode_msg = ''Function can either make a grid of ROIs (user must provide nrows, ncols, spacing, and coord) or take custom ROI coordinates (user must provide a list of tuples to 'coord' parameter)''"

text \<open>The three kinds of error of the specification, told apart by their message.\<close>

definition invalid_input_error :: error where
  "invalid_input_error = fatal_error not_binary_msg"

definition bounds_error :: error where
  "bounds_error = fatal_error outside_msg"

definition configuration_error :: error where
  "configuration_error = fatal_error mode_msg"

subsection \<open>numpy helpers\<close>

text \<open>\<^verbatim>\<open>np.shape(img)[:2]\<close>: height and width.\<close>

definition shape2 :: "ndarray \<Rightarrow> nat \<times> nat" where
  "shape2 img = (length (rows_of img), n_cols img)"

definition zeros :: "nat \<Rightarrow> nat \<Rightarrow> ndarray" where
  "zeros height width = Ndarray width (replicate height (replicate width 0))"

text \<open>\<^verbatim>\<open>np.unique\<close>: the sorted distinct values of the flattened array.\<close>

definition np_unique :: "ndarray \<Rightarrow> nat list" where
  "np_unique a = sort (remdups (concat (rows_of a)))"

text \<open>
  \<^verbatim>\<open>np.array(..., dtype=np.int32)\<close>, which builds the contour of \<^verbatim>\<open>rectangle\<close>, stores
  a Python integer only when it fits 32 signed bits; for one that does not it raises
  OverflowError, before anything is drawn.
\<close>

definition int32_ok :: "int \<Rightarrow> bool" where
  "int32_ok v = (- 2147483648 \<le> v \<and> v \<le> 2147483647)"

subsection \<open>The draw helper\<close>

definition draw_roi :: "ndarray \<Rightarrow> contour list \<Rightarrow> state \<Rightarrow> state" where
  "draw_roi img roi_contour s =
     (if debug s = Some ''print''
      then s\<lparr>outputs := outputs s @ [Printed (debug_outdir s) (device s) roi_contour]\<rparr>
      else if debug s = Some ''plot''
      then s\<lparr>outputs := outputs s @ [Plotted roi_contour]\<rparr>
      else s)"

subsection \<open>Shape builders\<close>

text \<open>
  Every builder takes the context and returns it updated, beside the value it returns
  or the error it raises.
\<close>

definition from_binary_image ::
  "cv2 \<Rightarrow> ndarray \<Rightarrow> ndarray \<Rightarrow> state \<Rightarrow> (error + contour list \<times> hierarchy) \<times> state" where
  "from_binary_image cv bin_img img s =
     (let s1 = s\<lparr>device := device s + 1\<rparr> in
      if length (np_unique bin_img) \<noteq> 2 then (Inl (fatal_error not_binary_msg), s1)
      else
        let (roi_contour, roi_hierarchy) = findContours cv bin_img RETR_TREE;
            s2 = (if debug s1 \<noteq> None then draw_roi img roi_contour s1 else s1)
        in (Inr (roi_contour, roi_hierarchy), s2))"

definition rectangle ::
  "int \<Rightarrow> int \<Rightarrow> int \<Rightarrow> int \<Rightarrow> ndarray \<Rightarrow> state \<Rightarrow> (error + contour list \<times> hierarchy) \<times> state" where
  "rectangle x y h w img s =
     (let s1 = s\<lparr>device := device s + 1\<rparr>;
          (height, width) = shape2 img in
      if x < 0 \<or> y < 0 \<or> x + w > int width \<or> y + h > int height
      then (Inl (fatal_error outside_msg), s1)
      else
        let pt1 = (x, y);
            pt2 = (x, y + h - 1);
            pt3 = (x + w - 1, y + h - 1);
            pt4 = (x + w - 1, y)
        in
        if int32_ok x \<and> int32_ok y \<and> int32_ok (x + w - 1) \<and> int32_ok (y + h - 1)
        then
          let roi_contour = [[pt1, pt2, pt3, pt4]];
              roi_hierarchy = [(-1, -1, -1, -1)];
              s2 = (if debug s1 \<noteq> None then draw_roi img roi_contour s1 else s1)
          in (Inr (roi_contour, roi_hierarchy), s2)
        else (Inl OverflowError, s1))"

definition circle ::
  "cv2 \<Rightarrow> int \<Rightarrow> int \<Rightarrow> int \<Rightarrow> ndarray \<Rightarrow> state \<Rightarrow> (error + contour list \<times> hierarchy) \<times> state" where
  "circle cv x y r img s =
     (let s1 = s\<lparr>device := device s + 1\<rparr>;
          (height, width) = shape2 img in
      if x - r < 0 \<or> x + r > int width \<or> y - r < 0 \<or> y + r > int height
      then (Inl (fatal_error outside_msg), s1)
      else
        let bin_img = cv_circle cv (zeros height width) (x, y) r 255 (-1);
            (roi_contour, roi_hierarchy) = findContours cv bin_img RETR_TREE;
            s2 = (if debug s1 \<noteq> None then draw_roi img roi_contour s1 else s1)
        in (Inr (roi_contour, roi_hierarchy), s2))"

text \<open>
  The ellipse is drawn first and the four border lines of the mask are summed. Indexing
  row 0 or column 0 of a mask with no rows or no columns raises IndexError.
\<close>

definition ellipse ::
  "cv2 \<Rightarrow> int \<Rightarrow> int \<Rightarrow> int \<Rightarrow> int \<Rightarrow> int \<Rightarrow> ndarray \<Rightarrow> state
     \<Rightarrow> (error + contour list \<times> hierarchy) \<times> state" where
  "ellipse cv x y r1 r2 angle img s =
     (let s1 = s\<lparr>device := device s + 1\<rparr>;
          (height, width) = shape2 img;
          bin_img = cv_ellipse cv (zeros height width) (x, y) (r1, r2) angle 0 360 255 (-1) in
      if height = 0 \<or> width = 0 then (Inl IndexError, s1)
      else if sum_list (hd (rows_of bin_img)) + sum_list (last (rows_of bin_img))
                + sum_list (map hd (rows_of bin_img)) + sum_list (map last (rows_of bin_img)) > 0
      then (Inl (fatal_error outside_msg), s1)
      else
        let (roi_contour, roi_hierarchy) = findContours cv bin_img RETR_TREE;
            s2 = (if debug s1 \<noteq> None then draw_roi img roi_contour s1 else s1)
        in (Inr (roi_contour, roi_hierarchy), s2))"

subsection \<open>The multi-ROI composer\<close>

text \<open>
  \<^verbatim>\<open>coord\<close> is a tuple (of two integers), a list of such tuples, or a value of another
  type, which \<^verbatim>\<open>type(coord) == tuple\<close> and \<^verbatim>\<open>type(coord) == list\<close> both reject;
  \<^verbatim>\<open>spacing\<close>, \<^verbatim>\<open>nrows\<close> and \<^verbatim>\<open>ncols\<close> default to None.
\<close>

datatype coord = CoordTuple point | CoordList "point list" | CoordOther

text \<open>
  Python's \<^verbatim>\<open>nrows and ncols\<close>: the first operand when it is falsy (None or 0), the
  second otherwise.
\<close>

definition py_and :: "int option \<Rightarrow> int option \<Rightarrow> int option" where
  "py_and a b = (if a = None \<or> a = Some 0 then a else b)"

text \<open>The local variables of \<^verbatim>\<open>multi\<close> that its loops update.\<close>

record multi_locals =
  m_rois :: "(contour list \<times> hierarchy) list"
  m_bin_img :: ndarray
  m_roi_contour :: "contour list list"
  m_roi_hierarchy :: "hierarchy list"
  m_roi_contour1 :: "contour list option"

text \<open>
  The body both loops share: build the circle ROI at the centre (an error of
  \<^verbatim>\<open>circle\<close> propagates, with the context as \<^verbatim>\<open>circle\<close> left it), draw the circle on
  the mask of the call, and append what \<^verbatim>\<open>findContours\<close> extracts from that mask.
\<close>

definition place_circle ::
  "cv2 \<Rightarrow> ndarray \<Rightarrow> int \<Rightarrow> point \<Rightarrow> multi_locals \<Rightarrow> state \<Rightarrow> (error + multi_locals) \<times> state" where
  "place_circle cv img radius c l s =
     (case circle cv (fst c) (snd c) radius img s of
        (Inl e, s') \<Rightarrow> (Inl e, s')
      | (Inr roi, s') \<Rightarrow>
          let bin_img = cv_circle cv (m_bin_img l) c radius 255 (-1) in
          (Inr \<lparr>m_rois = m_rois l @ [roi],
                m_bin_img = bin_img,
                m_roi_contour = m_roi_contour l @ [fst (findContours cv bin_img RETR_EXTERNAL)],
                m_roi_hierarchy = m_roi_hierarchy l @ [snd (findContours cv bin_img RETR_EXTERNAL)],
                m_roi_contour1 = Some (fst (findContours cv bin_img RETR_TREE))\<rparr>, s'))"

fun place_circles ::
  "cv2 \<Rightarrow> ndarray \<Rightarrow> int \<Rightarrow> point list \<Rightarrow> multi_locals \<Rightarrow> state \<Rightarrow> (error + multi_locals) \<times> state" where
  "place_circles cv img radius [] l s = (Inr l, s)"
| "place_circles cv img radius (c # cs) l s =
     (case place_circle cv img radius c l s of
        (Inl e, s') \<Rightarrow> (Inl e, s')
      | (Inr l', s') \<Rightarrow> place_circles cv img radius cs l' s')"

text \<open>
  The centres of the grid in the order the nested loops visit them: rows outside,
  columns inside; \<^verbatim>\<open>range(0, n)\<close> is empty for \<open>n \<le> 0\<close>.
\<close>

definition grid_centers :: "point \<Rightarrow> point \<Rightarrow> int \<Rightarrow> int \<Rightarrow> point list" where
  "grid_centers coord spacing nrows ncols =
     concat (map (\<lambda>i. map (\<lambda>j. (fst coord + int j * fst spacing, snd coord + int i * snd spacing))
                          [0..<nat ncols])
                 [0..<nat nrows])"

text \<open>
  The mode selection and the centres each mode visits. In grid mode the first row
  reads \<^verbatim>\<open>spacing[1]\<close> before any circle is placed, a TypeError when spacing is None,
  and then \<^verbatim>\<open>range(0, ncols)\<close>. Both happen before the first call of \<^verbatim>\<open>circle\<close>,
  so the two nested loops are the one loop of \<open>place_circles\<close> over the centres in
  row-major order, and the loop of the list mode is the same loop over the list.
\<close>

definition multi_centers ::
  "coord \<Rightarrow> point option \<Rightarrow> int option \<Rightarrow> int option \<Rightarrow> error + point list" where
  "multi_centers coord spacing nrows ncols =
     (case coord of
        CoordTuple c \<Rightarrow>
          if py_and nrows ncols \<noteq> None then
            (case nrows of
               None \<Rightarrow> Inl TypeError
             | Some n \<Rightarrow>
                 if n \<le> 0 then Inr []
                 else (case spacing of
                         None \<Rightarrow> Inl TypeError
                       | Some sp \<Rightarrow>
                           (case ncols of
                              None \<Rightarrow> Inl TypeError
                            | Some m \<Rightarrow> Inr (grid_centers c sp n m))))
          else Inl (fatal_error mode_msg)
      | CoordList cs \<Rightarrow>
          if py_and nrows ncols = None then Inr cs else Inl (fatal_error mode_msg)
      | CoordOther \<Rightarrow> Inl (fatal_error mode_msg))"

text \<open>
  The state and the locals when the mode selection is reached: the counter incremented,
  the debug mode saved and set to None, the mask of zeros and the empty lists.
  \<^verbatim>\<open>roi_contour1\<close> is unbound until the first placement: reading it then raises
  UnboundLocalError.
\<close>

definition multi_enter :: "state \<Rightarrow> state" where
  "multi_enter s = (s\<lparr>device := device s + 1\<rparr>)\<lparr>debug := None\<rparr>"

definition multi_locals0 :: "ndarray \<Rightarrow> multi_locals" where
  "multi_locals0 img =
     (let (height, width) = shape2 img in
      \<lparr>m_rois = [], m_bin_img = zeros height width, m_roi_contour = [],
       m_roi_hierarchy = [], m_roi_contour1 = None\<rparr>)"

definition multi ::
  "cv2 \<Rightarrow> ndarray \<Rightarrow> coord \<Rightarrow> int \<Rightarrow> point option \<Rightarrow> int option \<Rightarrow> int option \<Rightarrow> state
     \<Rightarrow> (error + contour list list \<times> hierarchy list) \<times> state" where
  "multi cv img coord radius spacing nrows ncols s =
     (let debug0 = debug (s\<lparr>device := device s + 1\<rparr>);
          s2 = multi_enter s in
      case multi_centers coord spacing nrows ncols of
        Inl e \<Rightarrow> (Inl e, s2)
      | Inr cs \<Rightarrow>
          (case place_circles cv img radius cs (multi_locals0 img) s2 of
             (Inl e, s3) \<Rightarrow> (Inl e, s3)
           | (Inr l, s3) \<Rightarrow>
               let s4 = s3\<lparr>debug := debug0\<rparr> in
               if debug s4 \<noteq> None then
                 (case m_roi_contour1 l of
                    None \<Rightarrow> (Inl UnboundLocalError, s4)
                  | Some roi_contour1 \<Rightarrow>
                      (Inr (m_roi_contour l, m_roi_hierarchy l), draw_roi img roi_contour1 s4))
               else (Inr (m_roi_contour l, m_roi_hierarchy l), s4)))"

subsection \<open>Notions the properties are stated with\<close>

text \<open>The bounding box of a contour: its least and greatest x, its least and greatest y.\<close>

definition bounding_box :: "contour \<Rightarrow> (int \<times> int) \<times> (int \<times> int)" where
  "bounding_box c =
     ((Min (set (map fst c)), Max (set (map fst c))),
      (Min (set (map snd c)), Max (set (map snd c))))"

text \<open>Whether a point lies in the coordinate domain of an image of the given shape.\<close>

definition in_domain :: "ndarray \<Rightarrow> point \<Rightarrow> bool" where
  "in_domain img p =
     (0 \<le> fst p \<and> fst p < int (snd (shape2 img)) \<and> 0 \<le> snd p \<and> snd p < int (fst (shape2 img)))"

subsection \<open>An executable instance of the primitives\<close>

text \<open>
  The theorems below hold for every instance of the three primitives. To evaluate them
  at concrete inputs a small instance is fixed: a circle is painted as the lattice
  points of the disk, an ellipse as those of the unrotated ellipse, and the contour
  extraction returns the lit pixels that have an unlit 4-neighbour, as one contour.
\<close>

definition lit :: "ndarray \<Rightarrow> int \<Rightarrow> int \<Rightarrow> bool" where
  "lit a x y =
     (0 \<le> x \<and> 0 \<le> y \<and> nat y < length (rows_of a) \<and> nat x < length (rows_of a ! nat y)
      \<and> 0 < rows_of a ! nat y ! nat x)"

definition paint :: "(int \<Rightarrow> int \<Rightarrow> bool) \<Rightarrow> nat \<Rightarrow> ndarray \<Rightarrow> ndarray" where
  "paint inside color a =
     Ndarray (n_cols a)
       (map (\<lambda>(y, row). map (\<lambda>(x, v). if inside (int x) (int y) then color else v) (enumerate 0 row))
            (enumerate 0 (rows_of a)))"

definition disk_circle :: "ndarray \<Rightarrow> point \<Rightarrow> int \<Rightarrow> nat \<Rightarrow> int \<Rightarrow> ndarray" where
  "disk_circle a c r color thickness =
     paint (\<lambda>x y. (x - fst c) * (x - fst c) + (y - snd c) * (y - snd c) \<le> r * r) color a"

definition axis_ellipse ::
  "ndarray \<Rightarrow> point \<Rightarrow> point \<Rightarrow> int \<Rightarrow> int \<Rightarrow> int \<Rightarrow> nat \<Rightarrow> int \<Rightarrow> ndarray" where
  "axis_ellipse a c axes angle startAngle endAngle color thickness =
     paint (\<lambda>x y. snd axes * snd axes * ((x - fst c) * (x - fst c))
                     + fst axes * fst axes * ((y - snd c) * (y - snd c))
                   \<le> fst axes * fst axes * (snd axes * snd axes)) color a"

definition border_points :: "ndarray \<Rightarrow> contour" where
  "border_points a =
     concat (map (\<lambda>(y, row).
               concat (map (\<lambda>(x, v).
                         if 0 < v \<and> \<not> (lit a (int x - 1) (int y) \<and> lit a (int x + 1) (int y)
                                        \<and> lit a (int x) (int y - 1) \<and> lit a (int x) (int y + 1))
                         then [(int x, int y)] else [])
                       (enumerate 0 row)))
             (enumerate 0 (rows_of a)))"

definition border_contours :: "ndarray \<Rightarrow> retr_mode \<Rightarrow> contour list \<times> hierarchy" where
  "border_contours a mode =
     (if border_points a = [] then ([], []) else ([border_points a], [(-1, -1, -1, -1)]))"

definition sample_cv :: cv2 where
  "sample_cv = \<lparr>cv_circle = disk_circle, cv_ellipse = axis_ellipse, findContours = border_contours\<rparr>"

definition state0 :: state where
  "state0 = \<lparr>device = 0, debug = None, debug_outdir = ''out'', outputs = []\<rparr>"

definition state_plot :: state where
  "state_plot = \<lparr>device = 0, debug = Some ''plot'', debug_outdir = ''out'', outputs = []\<rparr>"

text \<open>The mask after the circles at the given centres have been drawn on it, in order.\<close>

definition draw_all :: "cv2 \<Rightarrow> int \<Rightarrow> ndarray \<Rightarrow> point list \<Rightarrow> ndarray" where
  "draw_all cv radius b cs = foldl (\<lambda>b c. cv_circle cv b c radius 255 (-1)) b cs"

section \<open>Properties\<close>

subsection \<open>Helper lemmas\<close>

lemma shape2_zeros: "shape2 (zeros h w) = (h, w)"
  by (simp add: shape2_def zeros_def)

lemma rectangle_on_image_without_rows:
  "fst (rectangle 0 0 0 3 (zeros 0 5) s) =
     Inr ([[(0, 0), (0, - 1), (2, - 1), (2, 0)]], [(- 1, - 1, - 1, - 1)])"
  by (simp add: rectangle_def int32_ok_def shape2_zeros Let_def split: prod.splits)

lemma rectangle_overflow:
  "fst (rectangle x y h w img s) = Inl OverflowError \<longleftrightarrow>
     \<not> (x < 0 \<or> y < 0 \<or> x + w > int (snd (shape2 img)) \<or> y + h > int (fst (shape2 img)))
     \<and> \<not> (int32_ok x \<and> int32_ok y \<and> int32_ok (x + w - 1) \<and> int32_ok (y + h - 1))"
  by (simp add: rectangle_def fatal_error_def Let_def split: prod.splits)

lemma draw_roi_device [simp]: "device (draw_roi img c s) = device s"
  by (simp add: draw_roi_def)

lemma draw_roi_debug [simp]: "debug (draw_roi img c s) = debug s"
  by (simp add: draw_roi_def)

lemma draw_roi_outputs:
  "outputs (draw_roi img c s) = outputs s \<or> (\<exists>e. outputs (draw_roi img c s) = outputs s @ [e])"
  by (simp add: draw_roi_def)

lemma from_binary_image_device: "device (snd (from_binary_image cv b img s)) = device s + 1"
  by (simp add: from_binary_image_def Let_def split: prod.splits)

lemma rectangle_device: "device (snd (rectangle x y h w img s)) = device s + 1"
  by (simp add: rectangle_def int32_ok_def Let_def split: prod.splits)

lemma circle_device: "device (snd (circle cv x y r img s)) = device s + 1"
  by (simp add: circle_def Let_def split: prod.splits)

lemma ellipse_device: "device (snd (ellipse cv x y r_major r_minor a img s)) = device s + 1"
  by (simp add: ellipse_def Let_def split: prod.splits)

lemma circle_debug: "debug (snd (circle cv x y r img s)) = debug s"
  by (simp add: circle_def Let_def split: prod.splits)

lemma circle_outputs: "debug s = None \<Longrightarrow> outputs (snd (circle cv x y r img s)) = outputs s"
  by (simp add: circle_def Let_def split: prod.splits)

lemma circle_fst_state: "fst (circle cv x y r img s) = fst (circle cv x y r img t)"
  by (simp add: circle_def Let_def split: prod.splits)

lemma circle_error: "fst (circle cv x y r img s) = Inl e \<Longrightarrow> e = bounds_error"
  by (auto simp add: circle_def bounds_error_def Let_def split: prod.splits if_splits)

lemma place_circle_device: "device (snd (place_circle cv img r c l s)) = device s + 1"
  using circle_device [of cv "fst c" "snd c" r img s]
  by (auto simp add: place_circle_def Let_def split: prod.splits sum.splits)

lemma place_circle_debug: "debug (snd (place_circle cv img r c l s)) = debug s"
  using circle_debug [of cv "fst c" "snd c" r img s]
  by (auto simp add: place_circle_def Let_def split: prod.splits sum.splits)

lemma place_circle_outputs:
  "debug s = None \<Longrightarrow> outputs (snd (place_circle cv img r c l s)) = outputs s"
  using circle_outputs [of s cv "fst c" "snd c" r img]
  by (auto simp add: place_circle_def Let_def split: prod.splits sum.splits)

lemma place_circle_error: "fst (place_circle cv img r c l s) = Inl e \<Longrightarrow> e = bounds_error"
  using circle_error [of cv "fst c" "snd c" r img s e]
  by (auto simp add: place_circle_def Let_def split: prod.splits sum.splits)

lemma place_circle_fails_iff:
  "(\<exists>e. fst (place_circle cv img r c l s) = Inl e) \<longleftrightarrow> fst (circle cv (fst c) (snd c) r img s) = Inl bounds_error"
  using circle_error [of cv "fst c" "snd c" r img s]
  by (auto simp add: place_circle_def Let_def split: prod.splits sum.splits)

lemma place_circle_length:
  "place_circle cv img r c l s = (Inr l', s') \<Longrightarrow>
     length (m_roi_contour l') = length (m_roi_contour l) + 1 \<and>
     length (m_roi_hierarchy l') = length (m_roi_hierarchy l) + 1 \<and> m_roi_contour1 l' \<noteq> None"
  by (auto simp add: place_circle_def Let_def split: prod.splits sum.splits)

lemma place_circles_debug: "debug (snd (place_circles cv img r cs l s)) = debug s"
proof (induction cs arbitrary: l s)
  case Nil
  show ?case by simp
next
  case (Cons c cs)
  show ?case
    using place_circle_debug [of cv img r c l s] Cons.IH
    by (simp split: prod.splits sum.splits) (metis snd_conv)
qed

lemma place_circles_outputs:
  "debug s = None \<Longrightarrow> outputs (snd (place_circles cv img r cs l s)) = outputs s"
proof (induction cs arbitrary: l s)
  case Nil
  show ?case by simp
next
  case (Cons c cs)
  show ?case
  proof (cases "place_circle cv img r c l s")
    case (Pair res s')
    have d: "debug s' = None" and o: "outputs s' = outputs s"
      using place_circle_debug [of cv img r c l s] place_circle_outputs [of s cv img r c l] Pair Cons.prems
      by simp_all
    show ?thesis
      using Pair o Cons.IH [OF d] by (cases res) simp_all
  qed
qed

lemma place_circles_success:
  "place_circles cv img r cs l s = (Inr l', s') \<Longrightarrow>
     device s' = device s + int (length cs) \<and>
     length (m_roi_contour l') = length (m_roi_contour l) + length cs \<and>
     length (m_roi_hierarchy l') = length (m_roi_hierarchy l) + length cs \<and>
     (cs \<noteq> [] \<longrightarrow> m_roi_contour1 l' \<noteq> None)"
proof (induction cs arbitrary: l s)
  case Nil
  then show ?case by simp
next
  case (Cons c cs)
  show ?case
  proof (cases "place_circle cv img r c l s")
    case (Pair res t)
    show ?thesis
    proof (cases res)
      case (Inl e)
      with Pair Cons.prems show ?thesis by simp
    next
      case (Inr l1)
      have step: "place_circle cv img r c l s = (Inr l1, t)" using Pair Inr by simp
      have rest: "place_circles cv img r cs l1 t = (Inr l', s')"
        using Cons.prems step by simp
      have dt: "device t = device s + 1"
        using place_circle_device [of cv img r c l s] step by simp
      have c1: "m_roi_contour1 l' \<noteq> None"
      proof (cases cs)
        case Nil
        with rest place_circle_length [OF step] show ?thesis by simp
      next
        case (Cons a list)
        with Cons.IH [OF rest] show ?thesis by simp
      qed
      show ?thesis
        using Cons.IH [OF rest] place_circle_length [OF step] dt c1 by simp
    qed
  qed
qed

lemma place_circles_append:
  "place_circles cv img r (xs @ ys) l s =
     (case place_circles cv img r xs l s of
        (Inl e, s') \<Rightarrow> (Inl e, s')
      | (Inr l', s') \<Rightarrow> place_circles cv img r ys l' s')"
  by (induction xs arbitrary: l s) (simp_all split: prod.splits sum.splits)

lemma place_circles_prefix:
  assumes "place_circles cv img r cs l s = (Inr l', s')"
  shows "\<exists>l1 t. place_circles cv img r (take k cs) l s = (Inr l1, t)"
proof -
  have "place_circles cv img r (take k cs @ drop k cs) l s = (Inr l', s')"
    using assms by simp
  then show ?thesis
    unfolding place_circles_append
    by (cases "place_circles cv img r (take k cs) l s") (auto split: sum.splits)
qed

lemma place_circles_failure:
  "place_circles cv img r cs l s = (Inl e, s') \<Longrightarrow>
     e = bounds_error \<and>
     (\<exists>k<length cs. device s' = device s + 1 + int k \<and>
        fst (circle cv (fst (cs ! k)) (snd (cs ! k)) r img s) = Inl bounds_error \<and>
        (\<forall>j<k. fst (circle cv (fst (cs ! j)) (snd (cs ! j)) r img s) \<noteq> Inl bounds_error))"
proof (induction cs arbitrary: l s)
  case Nil
  then show ?case by simp
next
  case (Cons c cs)
  show ?case
  proof (cases "place_circle cv img r c l s")
    case (Pair res t)
    have dt: "device t = device s + 1"
      using place_circle_device [of cv img r c l s] Pair by simp
    show ?thesis
    proof (cases res)
      case (Inl e1)
      have e: "e = e1" "s' = t" using Cons.prems Pair Inl by simp_all
      have eb: "e1 = bounds_error" using place_circle_error [of cv img r c l s e1] Pair Inl by simp
      have f: "fst (circle cv (fst c) (snd c) r img s) = Inl bounds_error"
        using place_circle_fails_iff [of cv img r c l s] Pair Inl by auto
      show ?thesis
        using e eb f dt by (auto intro!: exI [of _ 0])
    next
      case (Inr l1)
      have ok: "fst (circle cv (fst c) (snd c) r img s) \<noteq> Inl bounds_error"
        using place_circle_fails_iff [of cv img r c l s] Pair Inr by auto
      have rest: "place_circles cv img r cs l1 t = (Inl e, s')"
        using Cons.prems Pair Inr by simp
      from Cons.IH [OF rest] obtain k where k: "e = bounds_error" "k < length cs"
        "device s' = device t + 1 + int k"
        "fst (circle cv (fst (cs ! k)) (snd (cs ! k)) r img t) = Inl bounds_error"
        "\<forall>j<k. fst (circle cv (fst (cs ! j)) (snd (cs ! j)) r img t) \<noteq> Inl bounds_error"
        by blast
      have st: "\<And>p. fst (circle cv (fst p) (snd p) r img t) = fst (circle cv (fst p) (snd p) r img s)"
        by (rule circle_fst_state)
      have all: "\<forall>j<Suc k. fst (circle cv (fst ((c # cs) ! j)) (snd ((c # cs) ! j)) r img s) \<noteq> Inl bounds_error"
        using k(5) ok st by (auto simp: nth_Cons split: nat.splits)
      show ?thesis
        using k(1,2,3,4) dt all st by (auto intro!: exI [of _ "Suc k"])
    qed
  qed
qed

lemma errors_distinct:
  "bounds_error \<noteq> configuration_error" "bounds_error \<noteq> invalid_input_error"
  "bounds_error \<noteq> TypeError" "configuration_error \<noteq> TypeError"
  "bounds_error \<noteq> UnboundLocalError" "configuration_error \<noteq> UnboundLocalError"
  by (simp_all add: bounds_error_def configuration_error_def invalid_input_error_def
        fatal_error_def outside_msg_def mode_msg_def not_binary_msg_def)

lemma length_grid_centers: "length (grid_centers c sp n m) = nat n * nat m"
  by (simp add: grid_centers_def length_concat comp_def sum_list_triv)

lemma multi_centers_error:
  "multi_centers coord spacing nrows ncols = Inl e \<Longrightarrow> e = configuration_error \<or> e = TypeError"
  by (auto simp add: multi_centers_def configuration_error_def split: coord.splits if_splits option.splits)

lemma multi_centers_grid:
  "multi_centers (CoordTuple c) spacing (Some n) (Some m) = Inr cs \<Longrightarrow> length cs = nat n * nat m"
  by (auto simp add: multi_centers_def py_and_def length_grid_centers split: if_splits option.splits)

lemma multi_centers_list:
  "multi_centers (CoordList xs) spacing nrows ncols = Inr cs \<Longrightarrow> cs = xs"
  by (auto simp add: multi_centers_def split: if_splits)

lemma multi_enter_simps [simp]:
  "device (multi_enter s) = device s + 1" "debug (multi_enter s) = None"
  "outputs (multi_enter s) = outputs s" "debug_outdir (multi_enter s) = debug_outdir s"
  by (simp_all add: multi_enter_def)

lemma multi_locals0_simps [simp]:
  "m_roi_contour (multi_locals0 img) = []" "m_roi_hierarchy (multi_locals0 img) = []"
  "m_roi_contour1 (multi_locals0 img) = None" "m_rois (multi_locals0 img) = []"
  by (simp_all add: multi_locals0_def split: prod.splits)

lemma multi_success:
  assumes "multi cv img coord radius spacing nrows ncols s = (Inr res, s')"
  shows "\<exists>cs l t. multi_centers coord spacing nrows ncols = Inr cs \<and>
           place_circles cv img radius cs (multi_locals0 img) (multi_enter s) = (Inr l, t) \<and>
           res = (m_roi_contour l, m_roi_hierarchy l) \<and>
           length (fst res) = length cs \<and> length (snd res) = length cs \<and>
           device s' = device s + 1 + int (length cs) \<and>
           debug s' = debug s \<and>
           (outputs s' = outputs s \<or> (\<exists>e. outputs s' = outputs s @ [e]))"
proof (cases "multi_centers coord spacing nrows ncols")
  case (Inl e)
  with assms show ?thesis by (simp add: multi_def Let_def)
next
  case (Inr cs)
  show ?thesis
  proof (cases "place_circles cv img radius cs (multi_locals0 img) (multi_enter s)")
    case (Pair r t)
    show ?thesis
    proof (cases r)
      case (Inl e)
      with assms Inr Pair show ?thesis by (simp add: multi_def Let_def)
    next
      case r: (Inr l)
      have run: "place_circles cv img radius cs (multi_locals0 img) (multi_enter s) = (Inr l, t)"
        using Pair r by simp
      have dbg: "debug t = None"
        using place_circles_debug [of cv img radius cs "multi_locals0 img" "multi_enter s"] run by simp
      have out: "outputs t = outputs s"
        using place_circles_outputs [of "multi_enter s" cv img radius cs "multi_locals0 img"] run by simp
      note succ = place_circles_success [OF run]
      have res: "res = (m_roi_contour l, m_roi_hierarchy l)"
        using assms Inr run by (simp add: multi_def Let_def split: if_splits option.splits)
      have dev: "device s' = device s + 1 + int (length cs)"
        using assms Inr run succ by (auto simp add: multi_def Let_def split: if_splits option.splits)
      have dbg': "debug s' = debug s"
        using assms Inr run by (auto simp add: multi_def Let_def split: if_splits option.splits)
      have out': "outputs s' = outputs s \<or> (\<exists>e. outputs s' = outputs s @ [e])"
        using assms Inr run out draw_roi_outputs
        by (auto simp add: multi_def Let_def draw_roi_def split: if_splits option.splits)
      show ?thesis
        using Inr run res dev dbg' out' succ by simp
    qed
  qed
qed

lemma multi_failure:
  assumes "multi cv img coord radius spacing nrows ncols s = (Inl e, s')"
  shows "(multi_centers coord spacing nrows ncols = Inl e \<and> s' = multi_enter s) \<or>
         (\<exists>cs. multi_centers coord spacing nrows ncols = Inr cs \<and>
            (place_circles cv img radius cs (multi_locals0 img) (multi_enter s) = (Inl e, s') \<or>
             (e = UnboundLocalError \<and> debug s' = debug s \<and> debug s \<noteq> None \<and>
              device s' = device s + 1 + int (length cs))))"
proof (cases "multi_centers coord spacing nrows ncols")
  case (Inl e1)
  with assms show ?thesis by (simp add: multi_def Let_def)
next
  case (Inr cs)
  show ?thesis
  proof (cases "place_circles cv img radius cs (multi_locals0 img) (multi_enter s)")
    case (Pair r t)
    show ?thesis
    proof (cases r)
      case (Inl e1)
      with assms Inr Pair show ?thesis by (simp add: multi_def Let_def)
    next
      case r: (Inr l)
      have run: "place_circles cv img radius cs (multi_locals0 img) (multi_enter s) = (Inr l, t)"
        using Pair r by simp
      note succ = place_circles_success [OF run]
      show ?thesis
        using assms Inr run succ
        by (auto simp add: multi_def Let_def split: if_splits option.splits)
    qed
  qed
qed

lemma sample_cv_lengths:
  "\<forall>a mode. length (snd (findContours sample_cv a mode)) = length (fst (findContours sample_cv a mode))"
  by (simp add: sample_cv_def border_contours_def)

lemmas multi_eval = multi_def multi_centers_def py_and_def multi_locals0_def multi_enter_def
  grid_centers_def place_circle_def circle_def shape2_zeros Let_def upt_conv_Cons

lemma circle_fails_iff:
  "(\<exists>e. fst (circle cv x y r img s) = Inl e) \<longleftrightarrow>
     x - r < 0 \<or> x + r > int (snd (shape2 img)) \<or> y - r < 0 \<or> y + r > int (fst (shape2 img))"
  by (auto simp add: circle_def Let_def split: prod.splits)

lemma rectangle_points_in_domain:
  assumes "fst (rectangle x y h w img s) = Inr ([c], hs)" and "1 \<le> h" and "1 \<le> w"
  shows "\<forall>p \<in> set c. in_domain img p"
  using assms
  by (auto simp add: rectangle_def int32_ok_def in_domain_def Let_def split: prod.splits if_splits)

lemma multi_configuration_error_iff:
  "fst (multi cv img coord radius spacing nrows ncols s) = Inl configuration_error \<longleftrightarrow>
     (case coord of
        CoordTuple c \<Rightarrow> py_and nrows ncols = None
      | CoordList cs \<Rightarrow> py_and nrows ncols \<noteq> None
      | CoordOther \<Rightarrow> True)"
proof -
  have a: "multi_centers coord spacing nrows ncols = Inl configuration_error \<longleftrightarrow>
     (case coord of
        CoordTuple c \<Rightarrow> py_and nrows ncols = None
      | CoordList cs \<Rightarrow> py_and nrows ncols \<noteq> None
      | CoordOther \<Rightarrow> True)"
    using errors_distinct
    by (auto simp add: multi_centers_def configuration_error_def split: coord.splits option.splits)
  have b: "fst (multi cv img coord radius spacing nrows ncols s) = Inl configuration_error \<longleftrightarrow>
       multi_centers coord spacing nrows ncols = Inl configuration_error"
  proof
    assume f: "fst (multi cv img coord radius spacing nrows ncols s) = Inl configuration_error"
    then obtain s' where run: "multi cv img coord radius spacing nrows ncols s = (Inl configuration_error, s')"
      by (cases "multi cv img coord radius spacing nrows ncols s") simp
    show "multi_centers coord spacing nrows ncols = Inl configuration_error"
      using multi_failure [OF run] place_circles_failure errors_distinct by metis
  next
    assume "multi_centers coord spacing nrows ncols = Inl configuration_error"
    then show "fst (multi cv img coord radius spacing nrows ncols s) = Inl configuration_error"
      by (simp add: multi_def Let_def)
  qed
  show ?thesis using a b by simp
qed

lemma place_circle_contours:
  "place_circle cv img r c l s = (Inr l', s') \<Longrightarrow>
     m_bin_img l' = cv_circle cv (m_bin_img l) c r 255 (-1) \<and>
     m_roi_contour l' = m_roi_contour l @ [fst (findContours cv (m_bin_img l') RETR_EXTERNAL)] \<and>
     m_roi_hierarchy l' = m_roi_hierarchy l @ [snd (findContours cv (m_bin_img l') RETR_EXTERNAL)]"
  by (auto simp add: place_circle_def Let_def split: prod.splits sum.splits)

lemma place_circles_contours:
  "place_circles cv img r cs l s = (Inr l', s') \<Longrightarrow>
     m_bin_img l' = draw_all cv r (m_bin_img l) cs \<and>
     m_roi_contour l' = m_roi_contour l @
        map (\<lambda>k. fst (findContours cv (draw_all cv r (m_bin_img l) (take (Suc k) cs)) RETR_EXTERNAL))
            [0..<length cs] \<and>
     m_roi_hierarchy l' = m_roi_hierarchy l @
        map (\<lambda>k. snd (findContours cv (draw_all cv r (m_bin_img l) (take (Suc k) cs)) RETR_EXTERNAL))
            [0..<length cs]"
proof (induction cs arbitrary: l s)
  case Nil
  then show ?case by (simp add: draw_all_def)
next
  case (Cons c cs)
  show ?case
  proof (cases "place_circle cv img r c l s")
    case (Pair res t)
    show ?thesis
    proof (cases res)
      case (Inl e)
      with Pair Cons.prems show ?thesis by simp
    next
      case (Inr l1)
      have step: "place_circle cv img r c l s = (Inr l1, t)" using Pair Inr by simp
      have rest: "place_circles cv img r cs l1 t = (Inr l', s')"
        using Cons.prems step by simp
      note s1 = place_circle_contours [OF step]
      note ih = Cons.IH [OF rest]
      have u: "[0..<length (c # cs)] = 0 # map Suc [0..<length cs]"
        by (simp add: upt_conv_Cons map_Suc_upt del: upt_Suc)
      show ?thesis
        unfolding u using ih s1 by (simp add: draw_all_def comp_def)
    qed
  qed
qed

lemma multi_entries:
  assumes "multi cv img coord radius spacing nrows ncols s = (Inr res, s')"
  shows "\<exists>cs. multi_centers coord spacing nrows ncols = Inr cs \<and>
           fst res = map (\<lambda>k. fst (findContours cv
                                  (draw_all cv radius (zeros (fst (shape2 img)) (snd (shape2 img)))
                                     (take (Suc k) cs)) RETR_EXTERNAL))
                         [0..<length cs] \<and>
           snd res = map (\<lambda>k. snd (findContours cv
                                  (draw_all cv radius (zeros (fst (shape2 img)) (snd (shape2 img)))
                                     (take (Suc k) cs)) RETR_EXTERNAL))
                         [0..<length cs]"
proof -
  from multi_success [OF assms] obtain cs l t where
    cs: "multi_centers coord spacing nrows ncols = Inr cs"
    and run: "place_circles cv img radius cs (multi_locals0 img) (multi_enter s) = (Inr l, t)"
    and res: "res = (m_roi_contour l, m_roi_hierarchy l)"
    by blast
  have b: "m_bin_img (multi_locals0 img) = zeros (fst (shape2 img)) (snd (shape2 img))"
    by (simp add: multi_locals0_def split: prod.splits)
  show ?thesis
    using cs res place_circles_contours [OF run] b by simp
qed

lemma sample_union_differs:
  "fst (findContours sample_cv
          (cv_circle sample_cv (cv_circle sample_cv (zeros 3 5) (1, 1) 1 255 (-1)) (3, 1) 1 255 (-1))
          RETR_EXTERNAL)
   \<noteq> fst (findContours sample_cv (cv_circle sample_cv (zeros 3 5) (3, 1) 1 255 (-1)) RETR_EXTERNAL)"
  by code_simp

subsection \<open>The grid of \<^verbatim>\<open>multi\<close>\<close>

text \<open>
  C1. The claim: in grid mode the entry for row i and column j is the external contour
  and hierarchy of the single circle centred at (coord.x + j*spacing.x,
  coord.y + i*spacing.y), not of the union of the circles placed so far. The code
  draws every circle on the one mask of the call, which is never cleared, and appends
  what \<^verbatim>\<open>findContours\<close> extracts from that mask. For the grid of one row and two
  columns at (20, 20) with radius 5 and spacing (10, 10) on a 100 x 100 image, the second
  entry is extracted from the mask that holds both circles. (Lemma \<open>multi_entries\<close>
  gives every entry of every successful call in this form.)
\<close>

theorem multi_grid_second_entry_of_both_circles:
  "fst (multi cv (zeros 100 100) (CoordTuple (20, 20)) 5 (Some (10, 10)) (Some 1) (Some 2) s) =
     Inr ([fst (findContours cv (cv_circle cv (zeros 100 100) (20, 20) 5 255 (-1)) RETR_EXTERNAL),
           fst (findContours cv
                  (cv_circle cv (cv_circle cv (zeros 100 100) (20, 20) 5 255 (-1)) (30, 20) 5 255 (-1))
                  RETR_EXTERNAL)],
          [snd (findContours cv (cv_circle cv (zeros 100 100) (20, 20) 5 255 (-1)) RETR_EXTERNAL),
           snd (findContours cv
                  (cv_circle cv (cv_circle cv (zeros 100 100) (20, 20) 5 255 (-1)) (30, 20) 5 255 (-1))
                  RETR_EXTERNAL)])"
  by (simp add: multi_def multi_centers_def py_and_def multi_locals0_def multi_enter_def
        grid_centers_def place_circle_def circle_def shape2_zeros Let_def upt_conv_Cons
      split: prod.splits)

subsection \<open>The rectangle builder\<close>

text \<open>
  C2, as claimed, fails: the rectangle of height 0 and width 0 at (0, 0) passes the
  bounds check on a 10 x 10 image, and the bounding box of the contour returned is
  [-1, 0] x [-1, 0], not [x, x+w-1] x [y, y+h-1] = [0, -1] x [0, -1]. And the rectangle
  of height -2147483648 at (0, 0) passes the check as well, but its vertex
  (0, -2147483649) does not fit the int32 contour: the call raises OverflowError and
  returns no contour.
\<close>

theorem rectangle_contract_counterexample:
  "fst (rectangle 0 0 0 0 (zeros 10 10) state0)
     = Inr ([[(0, 0), (0, - 1), (- 1, - 1), (- 1, 0)]], [(- 1, - 1, - 1, - 1)])
   \<and> bounding_box [(0, 0), (0, - 1), (- 1, - 1), (- 1, 0)] = ((- 1, 0), (- 1, 0))
   \<and> bounding_box [(0, 0), (0, - 1), (- 1, - 1), (- 1, 0)] \<noteq> ((0, 0 + 0 - 1), (0, 0 + 0 - 1))
   \<and> fst (rectangle 0 0 (- 2147483648) 1 (zeros 10 10) state0) = Inl OverflowError"
  by (simp add: rectangle_def int32_ok_def bounding_box_def shape2_zeros Let_def split: prod.splits)

text \<open>
  C2, amended. A call of \<^verbatim>\<open>rectangle(x, y, h, w, img)\<close> fails with the bounds error
  exactly when x < 0, y < 0, x + w > width or y + h > height. Otherwise, for h and w of
  at least 1 on an image whose extents are at most 2^31 (so that every vertex fits the
  int32 contour), it returns the one contour (x, y), (x, y+h-1), (x+w-1, y+h-1),
  (x+w-1, y), in that order, whose bounding box is [x, x+w-1] x [y, y+h-1], and the
  hierarchy of the single entry (-1, -1, -1, -1).
\<close>

theorem rectangle_contract:
  "(fst (rectangle x y h w img s) = Inl bounds_error \<longleftrightarrow>
      x < 0 \<or> y < 0 \<or> x + w > int (snd (shape2 img)) \<or> y + h > int (fst (shape2 img)))
   \<and> (1 \<le> h \<and> 1 \<le> w
        \<and> int (fst (shape2 img)) \<le> 2147483648 \<and> int (snd (shape2 img)) \<le> 2147483648
        \<and> \<not> (x < 0 \<or> y < 0 \<or> x + w > int (snd (shape2 img)) \<or> y + h > int (fst (shape2 img)))
        \<longrightarrow>
        fst (rectangle x y h w img s) =
          Inr ([[(x, y), (x, y + h - 1), (x + w - 1, y + h - 1), (x + w - 1, y)]],
               [(-1, -1, -1, -1)])
        \<and> bounding_box [(x, y), (x, y + h - 1), (x + w - 1, y + h - 1), (x + w - 1, y)]
            = ((x, x + w - 1), (y, y + h - 1)))"
proof -
  have e: "bounds_error \<noteq> OverflowError"
    by (simp add: bounds_error_def fatal_error_def)
  have r: "fst (rectangle x y h w img s) =
     (if x < 0 \<or> y < 0 \<or> x + w > int (snd (shape2 img)) \<or> y + h > int (fst (shape2 img))
      then Inl bounds_error
      else if int32_ok x \<and> int32_ok y \<and> int32_ok (x + w - 1) \<and> int32_ok (y + h - 1)
      then Inr ([[(x, y), (x, y + h - 1), (x + w - 1, y + h - 1), (x + w - 1, y)]],
                [(-1, -1, -1, -1)])
      else Inl OverflowError)"
    by (simp add: rectangle_def bounds_error_def Let_def split: prod.splits)
  have b: "1 \<le> w \<Longrightarrow> 1 \<le> h \<Longrightarrow>
      bounding_box [(x, y), (x, y + h - 1), (x + w - 1, y + h - 1), (x + w - 1, y)]
        = ((x, x + w - 1), (y, y + h - 1))"
    by (simp add: bounding_box_def min_def max_def)
  have fits: "int32_ok x \<and> int32_ok y \<and> int32_ok (x + w - 1) \<and> int32_ok (y + h - 1)"
    if "1 \<le> h" "1 \<le> w"
      "int (fst (shape2 img)) \<le> 2147483648" "int (snd (shape2 img)) \<le> 2147483648"
      "\<not> (x < 0 \<or> y < 0 \<or> x + w > int (snd (shape2 img)) \<or> y + h > int (fst (shape2 img)))"
    using that by (simp add: int32_ok_def)
  show ?thesis
    unfolding r using b fits e by (auto split: if_splits)
qed

theorem rectangle_contract_witness:
  "fst (rectangle 2 3 4 5 (zeros 10 10) state0) = Inr ([[(2, 3), (2, 6), (6, 6), (6, 3)]], [(-1, -1, -1, -1)])
   \<and> bounding_box [(2, 3), (2, 6), (6, 6), (6, 3)] = ((2, 6), (3, 6))
   \<and> fst (rectangle 2 3 4 9 (zeros 10 10) state0) = Inl bounds_error"
  using rectangle_contract [of 2 3 4 5 "zeros 10 10" state0]
        rectangle_contract [of 2 3 4 9 "zeros 10 10" state0]
  by (simp add: shape2_zeros)

subsection \<open>The circle builder\<close>

text \<open>
  C3. The claim: \<^verbatim>\<open>circle\<close> fails exactly when the bounding box [x-r, x+r] x [y-r, y+r]
  is not inside [0, width) x [0, height). The check of the code is x + r > width and
  y + r > height, so the circle of radius 5 centred at (5, 5) passes on a 10 x 10 image,
  although its bounding box reaches column 10 and row 10: the call returns what is
  extracted from the drawn mask.
\<close>

theorem circle_touching_far_edge_accepted:
  "fst (circle cv 5 5 5 (zeros 10 10) s) =
     Inr (findContours cv (cv_circle cv (zeros 10 10) (5, 5) 5 255 (-1)) RETR_TREE)"
  by (simp add: circle_def shape2_zeros Let_def split: prod.splits)

subsection \<open>The builder from a binary image\<close>

text \<open>
  C4. \<^verbatim>\<open>from_binary_image\<close> fails, with the invalid-input error, exactly when the mask
  does not hold exactly two distinct values. When it succeeds it returns what the
  contour extraction returned, so the hierarchy is as long as the contour list for
  every extraction primitive that returns one hierarchy entry per contour.
\<close>

theorem from_binary_image_contract:
  assumes "\<forall>a mode. length (snd (findContours cv a mode)) = length (fst (findContours cv a mode))"
  shows "(fst (from_binary_image cv bin_img img s) = Inl invalid_input_error \<longleftrightarrow>
            card (set (concat (rows_of bin_img))) \<noteq> 2)
       \<and> ((\<exists>e. fst (from_binary_image cv bin_img img s) = Inl e) \<longleftrightarrow>
            card (set (concat (rows_of bin_img))) \<noteq> 2)
       \<and> (\<forall>roi_contour roi_hierarchy.
            fst (from_binary_image cv bin_img img s) = Inr (roi_contour, roi_hierarchy) \<longrightarrow>
            length roi_hierarchy = length roi_contour)"
proof -
  have n: "length (np_unique bin_img) = card (set (concat (rows_of bin_img)))"
    by (simp add: np_unique_def length_remdups_card_conv)
  have r: "fst (from_binary_image cv bin_img img s) =
     (if card (set (concat (rows_of bin_img))) \<noteq> 2 then Inl invalid_input_error
      else Inr (findContours cv bin_img RETR_TREE))"
    by (simp add: from_binary_image_def n invalid_input_error_def Let_def split: prod.splits)
  show ?thesis
    unfolding r using assms by (auto split: if_splits) (metis fst_conv snd_conv)+
qed

theorem from_binary_image_contract_witness:
  "card (set (concat [[0, 255, 0], [255, 255, 0::nat]])) = 2
   \<and> (\<exists>roi_contour roi_hierarchy.
        fst (from_binary_image sample_cv (Ndarray 3 [[0, 255, 0], [255, 255, 0]]) (zeros 2 3) state0)
          = Inr (roi_contour, roi_hierarchy)
        \<and> length roi_hierarchy = length roi_contour)
   \<and> fst (from_binary_image sample_cv (Ndarray 3 [[0, 255, 7], [255, 255, 0]]) (zeros 2 3) state0)
       = Inl invalid_input_error"
proof -
  have c2: "card (set (concat [[0, 255, 0], [255, 255, 0::nat]])) = 2"
    by code_simp
  have c3: "card (set (concat [[0, 255, 7], [255, 255, 0::nat]])) \<noteq> 2"
    by code_simp
  note a = from_binary_image_contract [OF sample_cv_lengths, of "Ndarray 3 [[0, 255, 0], [255, 255, 0]]" "zeros 2 3" state0]
  note b = from_binary_image_contract [OF sample_cv_lengths, of "Ndarray 3 [[0, 255, 7], [255, 255, 0]]" "zeros 2 3" state0]
  obtain r where r: "fst (from_binary_image sample_cv (Ndarray 3 [[0, 255, 0], [255, 255, 0]]) (zeros 2 3) state0) = Inr r"
    using a c2 by (cases "fst (from_binary_image sample_cv (Ndarray 3 [[0, 255, 0], [255, 255, 0]]) (zeros 2 3) state0)") auto
  show ?thesis
    using a b c2 c3 r by (cases r) auto
qed

subsection \<open>Contour points and the image domain\<close>

text \<open>
  C5. The claim: every point of a contour returned by a parametric builder lies in
  [0, width) x [0, height), also for a rectangle with h = 0 or w = 0 that passes the
  bounds check. The rectangle of height 0 and width 0 at (0, 0) passes the check on a
  10 x 10 image, and three of the four points returned have a coordinate -1.
\<close>

theorem rectangle_degenerate_outside_domain:
  "fst (rectangle 0 0 0 0 (zeros 10 10) s) =
     Inr ([[(0, 0), (0, - 1), (- 1, - 1), (- 1, 0)]], [(- 1, - 1, - 1, - 1)])
   \<and> \<not> in_domain (zeros 10 10) (0, - 1)
   \<and> \<not> in_domain (zeros 10 10) (- 1, - 1)
   \<and> \<not> in_domain (zeros 10 10) (- 1, 0)"
  by (simp add: rectangle_def int32_ok_def in_domain_def shape2_zeros Let_def split: prod.splits)

subsection \<open>The device counter\<close>

text \<open>
  C6, as claimed, fails: a successful grid call with nrows = -1 and ncols = -1 places no
  circle (\<^verbatim>\<open>range(0, -1)\<close> is empty) and adds 1 to the counter, not 1 + nrows*ncols = 2.
\<close>

theorem device_counter_counterexample:
  "fst (multi sample_cv (zeros 10 10) (CoordTuple (5, 5)) 2 (Some (1, 1)) (Some (- 1)) (Some (- 1)) state0)
     = Inr ([], [])
   \<and> device (snd (multi sample_cv (zeros 10 10) (CoordTuple (5, 5)) 2 (Some (1, 1)) (Some (- 1)) (Some (- 1)) state0))
     = device state0 + 1
   \<and> device (snd (multi sample_cv (zeros 10 10) (CoordTuple (5, 5)) 2 (Some (1, 1)) (Some (- 1)) (Some (- 1)) state0))
     \<noteq> device state0 + 1 + (- 1) * (- 1)"
  by (simp add: multi_def multi_centers_def py_and_def multi_enter_def state0_def Let_def)

text \<open>
  C6, amended. The device counter never decreases. Every successful call of
  \<^verbatim>\<open>from_binary_image\<close>, \<^verbatim>\<open>rectangle\<close>, \<^verbatim>\<open>circle\<close> or \<^verbatim>\<open>ellipse\<close> adds exactly one to it.
  A successful call of \<^verbatim>\<open>multi\<close> adds exactly 1 + the number of circles placed, which is
  the length of the lists returned: max(nrows, 0) * max(ncols, 0) in grid mode, the
  length of the coordinate list in list mode.
\<close>

theorem device_counter:
  "device s \<le> device (snd (from_binary_image cv bin_img img s))
   \<and> device s \<le> device (snd (rectangle x y h w img s))
   \<and> device s \<le> device (snd (circle cv x y r img s))
   \<and> device s \<le> device (snd (ellipse cv x y r_major r_minor angle img s))
   \<and> device s \<le> device (snd (multi cv img coord radius spacing nrows ncols s))
   \<and> (\<forall>res. fst (from_binary_image cv bin_img img s) = Inr res \<longrightarrow>
         device (snd (from_binary_image cv bin_img img s)) = device s + 1)
   \<and> (\<forall>res. fst (rectangle x y h w img s) = Inr res \<longrightarrow>
         device (snd (rectangle x y h w img s)) = device s + 1)
   \<and> (\<forall>res. fst (circle cv x y r img s) = Inr res \<longrightarrow>
         device (snd (circle cv x y r img s)) = device s + 1)
   \<and> (\<forall>res. fst (ellipse cv x y r_major r_minor angle img s) = Inr res \<longrightarrow>
         device (snd (ellipse cv x y r_major r_minor angle img s)) = device s + 1)
   \<and> (\<forall>res. fst (multi cv img coord radius spacing nrows ncols s) = Inr res \<longrightarrow>
         (\<exists>cs. multi_centers coord spacing nrows ncols = Inr cs
               \<and> length (fst res) = length cs \<and> length (snd res) = length cs
               \<and> device (snd (multi cv img coord radius spacing nrows ncols s))
                   = device s + 1 + int (length cs))
         \<and> (\<forall>c n m. coord = CoordTuple c \<and> nrows = Some n \<and> ncols = Some m \<longrightarrow>
               device (snd (multi cv img coord radius spacing nrows ncols s))
                 = device s + 1 + max 0 n * max 0 m)
         \<and> (\<forall>cs. coord = CoordList cs \<longrightarrow>
               device (snd (multi cv img coord radius spacing nrows ncols s))
                 = device s + 1 + int (length cs)))"
proof -
  have multi_le: "device s \<le> device (snd (multi cv img coord radius spacing nrows ncols s))"
  proof (cases "multi cv img coord radius spacing nrows ncols s")
    case (Pair res s')
    show ?thesis
    proof (cases res)
      case (Inl e)
      from multi_failure [of cv img coord radius spacing nrows ncols s e s'] Pair Inl
      have "s' = multi_enter s
            \<or> (\<exists>cs. place_circles cv img radius cs (multi_locals0 img) (multi_enter s) = (Inl e, s'))
            \<or> device s \<le> device s'"
        by auto
      moreover have "device s \<le> device s'"
        if "place_circles cv img radius cs (multi_locals0 img) (multi_enter s) = (Inl e, s')" for cs
        using place_circles_failure [OF that] by auto
      ultimately show ?thesis
        using Pair by auto
    next
      case (Inr r)
      from multi_success [of cv img coord radius spacing nrows ncols s r s'] Pair Inr
      show ?thesis by auto
    qed
  qed
  have multi_ok: "(\<exists>cs. multi_centers coord spacing nrows ncols = Inr cs
               \<and> length (fst res) = length cs \<and> length (snd res) = length cs
               \<and> device (snd (multi cv img coord radius spacing nrows ncols s))
                   = device s + 1 + int (length cs))
         \<and> (\<forall>c n m. coord = CoordTuple c \<and> nrows = Some n \<and> ncols = Some m \<longrightarrow>
               device (snd (multi cv img coord radius spacing nrows ncols s))
                 = device s + 1 + max 0 n * max 0 m)
         \<and> (\<forall>cs. coord = CoordList cs \<longrightarrow>
               device (snd (multi cv img coord radius spacing nrows ncols s))
                 = device s + 1 + int (length cs))"
    if ok: "fst (multi cv img coord radius spacing nrows ncols s) = Inr res" for res
  proof -
    obtain s' where run: "multi cv img coord radius spacing nrows ncols s = (Inr res, s')"
      using ok by (cases "multi cv img coord radius spacing nrows ncols s") simp
    from multi_success [OF run] obtain cs where
      cs: "multi_centers coord spacing nrows ncols = Inr cs"
        "length (fst res) = length cs" "length (snd res) = length cs"
        "device s' = device s + 1 + int (length cs)"
      by blast
    have grid: "device s' = device s + 1 + max 0 n * max 0 m"
      if "coord = CoordTuple c" "nrows = Some n" "ncols = Some m" for c n m
    proof -
      have "length cs = nat n * nat m"
        using cs(1) that multi_centers_grid by simp
      then have "int (length cs) = max 0 n * max 0 m"
        by (simp add: max_def)
      then show ?thesis using cs(4) by simp
    qed
    have lst: "device s' = device s + 1 + int (length xs)" if "coord = CoordList xs" for xs
    proof -
      have "cs = xs" using cs(1) that by (simp add: multi_centers_list)
      then show ?thesis using cs(4) by simp
    qed
    show ?thesis
      using run cs grid lst by auto
  qed
  have le: "device s \<le> device (snd (from_binary_image cv bin_img img s))"
      "device s \<le> device (snd (rectangle x y h w img s))"
      "device s \<le> device (snd (circle cv x y r img s))"
      "device s \<le> device (snd (ellipse cv x y r_major r_minor angle img s))"
    by (simp_all add: from_binary_image_device rectangle_device circle_device ellipse_device)
  show ?thesis
    using le multi_le multi_ok
      from_binary_image_device [of cv bin_img img s] rectangle_device [of x y h w img s]
      circle_device [of cv x y r img s] ellipse_device [of cv x y r_major r_minor angle img s]
    by blast
qed

theorem device_counter_witness:
  "device (snd (from_binary_image sample_cv (Ndarray 3 [[0, 255, 0], [255, 255, 0]]) (zeros 2 3) state0)) = 1
   \<and> device (snd (rectangle 2 3 4 5 (zeros 10 10) state0)) = 1
   \<and> device (snd (circle sample_cv 3 3 2 (zeros 10 10) state0)) = 1
   \<and> device (snd (ellipse sample_cv 3 3 2 1 0 (zeros 7 7) state0)) = 1
   \<and> device (snd (multi sample_cv (zeros 10 10) (CoordTuple (3, 3)) 2 (Some (4, 4)) (Some 2) (Some 2) state0)) = 5
   \<and> device (snd (multi sample_cv (zeros 10 10) (CoordList [(3, 3), (6, 6), (3, 6)]) 2 None None None state0)) = 4"
proof -
  have f: "\<exists>res. fst (from_binary_image sample_cv (Ndarray 3 [[0, 255, 0], [255, 255, 0]]) (zeros 2 3) state0) = Inr res"
  proof -
    have "length (np_unique (Ndarray 3 [[0, 255, 0], [255, 255, 0]])) = 2" by code_simp
    then show ?thesis
      by (simp add: from_binary_image_def Let_def split: prod.splits)
  qed
  have r: "\<exists>res. fst (rectangle 2 3 4 5 (zeros 10 10) state0) = Inr res"
    by (simp add: rectangle_def int32_ok_def shape2_zeros Let_def split: prod.splits)
  have c: "\<exists>res. fst (circle sample_cv 3 3 2 (zeros 10 10) state0) = Inr res"
    by (simp add: circle_def shape2_zeros Let_def split: prod.splits)
  have "case fst (ellipse sample_cv 3 3 2 1 0 (zeros 7 7) state0) of Inr _ \<Rightarrow> True | Inl _ \<Rightarrow> False"
    by code_simp
  then have e: "\<exists>res. fst (ellipse sample_cv 3 3 2 1 0 (zeros 7 7) state0) = Inr res"
    by (cases "fst (ellipse sample_cv 3 3 2 1 0 (zeros 7 7) state0)") simp_all
  have g: "\<exists>res. fst (multi sample_cv (zeros 10 10) (CoordTuple (3, 3)) 2 (Some (4, 4)) (Some 2) (Some 2) state0) = Inr res"
    by (simp add: multi_eval state0_def split: prod.splits)
  have l: "\<exists>res. fst (multi sample_cv (zeros 10 10) (CoordList [(3, 3), (6, 6), (3, 6)]) 2 None None None state0) = Inr res"
    by (simp add: multi_eval state0_def split: prod.splits)
  have d: "device state0 = 0" by (simp add: state0_def)
  note a1 = device_counter [where s = state0 and cv = sample_cv and img = "zeros 10 10"
        and bin_img = "zeros 0 0" and x = 2 and y = 3 and h = 4 and w = 5 and r = 1
        and r_major = 1 and r_minor = 1 and angle = 0
        and coord = "CoordTuple (3, 3)" and radius = 2 and spacing = "Some (4, 4)"
        and nrows = "Some 2" and ncols = "Some 2"]
  note a2 = device_counter [where s = state0 and cv = sample_cv and img = "zeros 10 10"
        and bin_img = "zeros 0 0" and x = 3 and y = 3 and h = 4 and w = 5 and r = 2
        and r_major = 1 and r_minor = 1 and angle = 0
        and coord = "CoordList [(3, 3), (6, 6), (3, 6)]" and radius = 2 and spacing = None
        and nrows = None and ncols = None]
  note a3 = device_counter [where s = state0 and cv = sample_cv and img = "zeros 2 3"
        and bin_img = "Ndarray 3 [[0, 255, 0], [255, 255, 0]]" and x = 3 and y = 3 and h = 4 and w = 5 and r = 2
        and r_major = 1 and r_minor = 1 and angle = 0
        and coord = CoordOther and radius = 2 and spacing = None
        and nrows = None and ncols = None]
  note a4 = device_counter [where s = state0 and cv = sample_cv and img = "zeros 7 7"
        and bin_img = "zeros 0 0" and x = 3 and y = 3 and h = 4 and w = 5 and r = 2
        and r_major = 2 and r_minor = 1 and angle = 0
        and coord = CoordOther and radius = 2 and spacing = None
        and nrows = None and ncols = None]
  have m1: "device (snd (multi sample_cv (zeros 10 10) (CoordTuple (3, 3)) 2 (Some (4, 4)) (Some 2) (Some 2) state0)) = 5"
    using a1 g d by auto
  have m2: "device (snd (multi sample_cv (zeros 10 10) (CoordList [(3, 3), (6, 6), (3, 6)]) 2 None None None state0)) = 4"
    using a2 l d by auto
  show ?thesis
    using a1 a2 a3 a4 f r c e d m1 m2 by auto
qed

subsection \<open>Mode selection of \<^verbatim>\<open>multi\<close>\<close>

text \<open>
  C7. The claim: a call with a coordinate tuple and nrows or ncols absent fails with the
  configuration error. With nrows = 0 and ncols absent, \<^verbatim>\<open>nrows and ncols\<close> is 0, which
  is not None: the grid branch is taken, places nothing, and the call returns two empty
  lists (or, in a debug mode, fails on the unbound \<^verbatim>\<open>roi_contour1\<close>); it never
  raises the configuration error.
\<close>

theorem multi_zero_rows_without_ncols:
  "fst (multi cv img (CoordTuple c) radius spacing (Some 0) None s) =
     (if debug s = None then Inr ([], []) else Inl UnboundLocalError)
   \<and> fst (multi cv img (CoordTuple c) radius spacing (Some 0) None s) \<noteq> Inl configuration_error"
  by (simp add: multi_def multi_centers_def py_and_def multi_locals0_def multi_enter_def Let_def
        configuration_error_def fatal_error_def split: prod.splits)

subsection \<open>The debug mode around \<^verbatim>\<open>multi\<close>\<close>

text \<open>
  C8. For a successful call of \<^verbatim>\<open>multi\<close>: the debug mode on return is the one before
  the call; every inner call of the circle builder is made in a state whose debug mode
  is off (the state reached after the placements before it), and draws nothing; the
  whole call emits at most one image, the final one, and none when the debug mode of
  the caller is off.
\<close>

theorem multi_debug_suppressed_then_restored:
  assumes "multi cv img coord radius spacing nrows ncols s = (Inr res, s')"
  shows "debug s' = debug s
     \<and> (\<exists>cs. multi_centers coord spacing nrows ncols = Inr cs \<and>
          (\<forall>k<length cs. \<exists>l t.
              place_circles cv img radius (take k cs) (multi_locals0 img) (multi_enter s) = (Inr l, t)
              \<and> debug t = None \<and> outputs t = outputs s
              \<and> outputs (snd (circle cv (fst (cs ! k)) (snd (cs ! k)) radius img t)) = outputs s))
     \<and> (outputs s' = outputs s \<or> (\<exists>e. outputs s' = outputs s @ [e]))
     \<and> (debug s = None \<longrightarrow> outputs s' = outputs s)"
proof -
  from multi_success [OF assms] obtain cs l t where
    cs: "multi_centers coord spacing nrows ncols = Inr cs"
    and run: "place_circles cv img radius cs (multi_locals0 img) (multi_enter s) = (Inr l, t)"
    and dbg: "debug s' = debug s"
    and out: "outputs s' = outputs s \<or> (\<exists>e. outputs s' = outputs s @ [e])"
    by blast
  have inner: "\<exists>l1 t1.
      place_circles cv img radius (take k cs) (multi_locals0 img) (multi_enter s) = (Inr l1, t1)
      \<and> debug t1 = None \<and> outputs t1 = outputs s
      \<and> outputs (snd (circle cv (fst (cs ! k)) (snd (cs ! k)) radius img t1)) = outputs s" for k
  proof -
    from place_circles_prefix [OF run, of k] obtain l1 t1 where
      p: "place_circles cv img radius (take k cs) (multi_locals0 img) (multi_enter s) = (Inr l1, t1)"
      by blast
    have d1: "debug t1 = None"
      using place_circles_debug [of cv img radius "take k cs" "multi_locals0 img" "multi_enter s"] p
      by simp
    have o1: "outputs t1 = outputs s"
      using place_circles_outputs [of "multi_enter s" cv img radius "take k cs" "multi_locals0 img"] p
      by simp
    have c1: "outputs (snd (circle cv (fst (cs ! k)) (snd (cs ! k)) radius img t1)) = outputs s"
      using circle_outputs [OF d1] o1 by simp
    show ?thesis using p d1 o1 c1 by blast
  qed
  have t: "debug t = None" "outputs t = outputs s"
    using place_circles_debug [of cv img radius cs "multi_locals0 img" "multi_enter s"]
      place_circles_outputs [of "multi_enter s" cv img radius cs "multi_locals0 img"] run
    by simp_all
  have quiet: "outputs s' = outputs s" if "debug s = None"
    using assms cs run t that
    by (auto simp add: multi_def Let_def split: if_splits option.splits)
  show ?thesis
    using cs dbg out inner quiet by blast
qed

theorem multi_debug_suppressed_then_restored_witness:
  "debug state_plot = Some ''plot''
   \<and> debug (snd (multi sample_cv (zeros 10 10) (CoordList [(3, 3), (6, 6)]) 2 None None None state_plot))
       = Some ''plot''
   \<and> (\<exists>l t. place_circles sample_cv (zeros 10 10) 2 (take 1 [(3, 3), (6, 6)])
               (multi_locals0 (zeros 10 10)) (multi_enter state_plot) = (Inr l, t)
            \<and> debug t = None \<and> outputs t = [])"
proof -
  obtain res s' where
    run: "multi sample_cv (zeros 10 10) (CoordList [(3, 3), (6, 6)]) 2 None None None state_plot = (Inr res, s')"
    by (simp add: multi_eval state_plot_def split: prod.splits)
  have c: "multi_centers (CoordList [(3, 3), (6, 6)]) None None None = Inr [(3, 3), (6, 6)]"
    by (simp add: multi_centers_def py_and_def)
  have p: "debug state_plot = Some ''plot''" "outputs state_plot = []"
    by (simp_all add: state_plot_def)
  from multi_debug_suppressed_then_restored [OF run] c p run
  show ?thesis by (auto simp del: take_Suc_Cons place_circles.simps dest: spec [of _ 1])
qed

subsection \<open>The device counter of a failing call\<close>

text \<open>
  C9, as claimed, fails for \<^verbatim>\<open>multi\<close>: when the first circle placement fails its bounds
  check the counter has been incremented twice, once by \<^verbatim>\<open>multi\<close> and once by
  \<^verbatim>\<open>circle\<close>.
\<close>

theorem device_counter_on_failure_counterexample:
  "fst (multi sample_cv (zeros 10 10) (CoordList [(0, 0)]) 2 None None None state0) = Inl bounds_error
   \<and> device (snd (multi sample_cv (zeros 10 10) (CoordList [(0, 0)]) 2 None None None state0))
       = device state0 + 2"
  by (simp add: multi_eval bounds_error_def state0_def split: prod.splits)

text \<open>
  C9, amended. Every builder increments the device counter before it validates its
  input, so a failing call does not leave the shared state unchanged:
  \<^verbatim>\<open>from_binary_image\<close>, \<^verbatim>\<open>rectangle\<close>, \<^verbatim>\<open>circle\<close> and \<^verbatim>\<open>ellipse\<close> that fail, and
  \<^verbatim>\<open>multi\<close> that fails with the configuration error, leave the counter incremented by
  exactly one; \<^verbatim>\<open>multi\<close> that fails with a bounds error leaves it incremented by
  1 + k, where the k-th circle placement (k at least 1) is the first that fails its
  bounds check.
\<close>

theorem device_counter_on_failure:
  "(\<forall>e. fst (from_binary_image cv bin_img img s) = Inl e \<longrightarrow>
        device (snd (from_binary_image cv bin_img img s)) = device s + 1)
   \<and> (\<forall>e. fst (rectangle x y h w img s) = Inl e \<longrightarrow>
        device (snd (rectangle x y h w img s)) = device s + 1)
   \<and> (\<forall>e. fst (circle cv x y r img s) = Inl e \<longrightarrow>
        device (snd (circle cv x y r img s)) = device s + 1)
   \<and> (\<forall>e. fst (ellipse cv x y r_major r_minor angle img s) = Inl e \<longrightarrow>
        device (snd (ellipse cv x y r_major r_minor angle img s)) = device s + 1)
   \<and> (fst (multi cv img coord radius spacing nrows ncols s) = Inl configuration_error \<longrightarrow>
        device (snd (multi cv img coord radius spacing nrows ncols s)) = device s + 1)
   \<and> (fst (multi cv img coord radius spacing nrows ncols s) = Inl bounds_error \<longrightarrow>
        (\<exists>cs k. multi_centers coord spacing nrows ncols = Inr cs \<and> k < length cs
           \<and> device (snd (multi cv img coord radius spacing nrows ncols s)) = device s + 1 + (int k + 1)
           \<and> fst (circle cv (fst (cs ! k)) (snd (cs ! k)) radius img s) = Inl bounds_error
           \<and> (\<forall>j<k. fst (circle cv (fst (cs ! j)) (snd (cs ! j)) radius img s) \<noteq> Inl bounds_error)))"
proof -
  have conf: "device (snd (multi cv img coord radius spacing nrows ncols s)) = device s + 1"
    if f: "fst (multi cv img coord radius spacing nrows ncols s) = Inl configuration_error"
  proof -
    obtain s' where run: "multi cv img coord radius spacing nrows ncols s = (Inl configuration_error, s')"
      using f by (cases "multi cv img coord radius spacing nrows ncols s") simp
    have "s' = multi_enter s"
      using multi_failure [OF run] place_circles_failure errors_distinct by metis
    then show ?thesis using run by simp
  qed
  have bnd: "\<exists>cs k. multi_centers coord spacing nrows ncols = Inr cs \<and> k < length cs
           \<and> device (snd (multi cv img coord radius spacing nrows ncols s)) = device s + 1 + (int k + 1)
           \<and> fst (circle cv (fst (cs ! k)) (snd (cs ! k)) radius img s) = Inl bounds_error
           \<and> (\<forall>j<k. fst (circle cv (fst (cs ! j)) (snd (cs ! j)) radius img s) \<noteq> Inl bounds_error)"
    if f: "fst (multi cv img coord radius spacing nrows ncols s) = Inl bounds_error"
  proof -
    obtain s' where run: "multi cv img coord radius spacing nrows ncols s = (Inl bounds_error, s')"
      using f by (cases "multi cv img coord radius spacing nrows ncols s") simp
    have no: "multi_centers coord spacing nrows ncols \<noteq> Inl bounds_error"
      using multi_centers_error [of coord spacing nrows ncols bounds_error] errors_distinct by auto
    from multi_failure [OF run] no errors_distinct obtain cs where
      cs: "multi_centers coord spacing nrows ncols = Inr cs"
      and pl: "place_circles cv img radius cs (multi_locals0 img) (multi_enter s) = (Inl bounds_error, s')"
      by auto
    from place_circles_failure [OF pl] obtain k where
      k: "k < length cs" "device s' = device (multi_enter s) + 1 + int k"
        "fst (circle cv (fst (cs ! k)) (snd (cs ! k)) radius img (multi_enter s)) = Inl bounds_error"
        "\<forall>j<k. fst (circle cv (fst (cs ! j)) (snd (cs ! j)) radius img (multi_enter s)) \<noteq> Inl bounds_error"
      by blast
    have st: "\<And>p. fst (circle cv (fst p) (snd p) radius img (multi_enter s))
                 = fst (circle cv (fst p) (snd p) radius img s)"
      by (rule circle_fst_state)
    have dev: "device (snd (multi cv img coord radius spacing nrows ncols s)) = device s + 1 + (int k + 1)"
      using run k(2) by simp
    show ?thesis
      using cs k(1,3,4) dev unfolding st by blast
  qed
  show ?thesis
    using conf bnd
      from_binary_image_device [of cv bin_img img s] rectangle_device [of x y h w img s]
      circle_device [of cv x y r img s] ellipse_device [of cv x y r_major r_minor angle img s]
    by blast
qed

theorem device_counter_on_failure_witness:
  "device (snd (from_binary_image sample_cv (Ndarray 3 [[0, 255, 7], [255, 255, 0]]) (zeros 2 3) state0)) = 1
   \<and> device (snd (rectangle 2 3 4 9 (zeros 10 10) state0)) = 1
   \<and> device (snd (circle sample_cv 2 3 7 (zeros 10 10) state0)) = 1
   \<and> device (snd (ellipse sample_cv 0 0 2 1 0 (zeros 7 7) state0)) = 1
   \<and> device (snd (multi sample_cv (zeros 10 10) (CoordList [(3, 3)]) 2 None (Some 1) (Some 1) state0)) = 1
   \<and> device (snd (multi sample_cv (zeros 10 10) (CoordList [(3, 3), (6, 6), (0, 0)]) 2 None None None state0)) = 4"
proof -
  have f: "fst (from_binary_image sample_cv (Ndarray 3 [[0, 255, 7], [255, 255, 0]]) (zeros 2 3) state0)
             = Inl invalid_input_error"
  proof -
    have "length (np_unique (Ndarray 3 [[0, 255, 7], [255, 255, 0]])) \<noteq> 2" by code_simp
    then show ?thesis
      by (simp add: from_binary_image_def invalid_input_error_def Let_def split: prod.splits)
  qed
  have r: "fst (rectangle 2 3 4 9 (zeros 10 10) state0) = Inl bounds_error"
    by (simp add: rectangle_def int32_ok_def bounds_error_def shape2_zeros Let_def split: prod.splits)
  have c: "fst (circle sample_cv 2 3 7 (zeros 10 10) state0) = Inl bounds_error"
    by (simp add: circle_def bounds_error_def shape2_zeros Let_def split: prod.splits)
  have e: "fst (ellipse sample_cv 0 0 2 1 0 (zeros 7 7) state0) = Inl bounds_error"
    by code_simp
  have m: "fst (multi sample_cv (zeros 10 10) (CoordList [(3, 3)]) 2 None (Some 1) (Some 1) state0)
             = Inl configuration_error"
    by (simp add: multi_def multi_centers_def py_and_def configuration_error_def Let_def)
  have b: "fst (multi sample_cv (zeros 10 10) (CoordList [(3, 3), (6, 6), (0, 0)]) 2 None None None state0)
             = Inl bounds_error"
    by (simp add: multi_eval bounds_error_def state0_def split: prod.splits)
  have cs: "multi_centers (CoordList [(3, 3), (6, 6), (0, 0)]) None None None = Inr [(3, 3), (6, 6), (0, 0)]"
    by (simp add: multi_centers_def py_and_def)
  have d: "device state0 = 0" by (simp add: state0_def)
  note a1 = device_counter_on_failure [where s = state0 and cv = sample_cv and img = "zeros 10 10"
        and bin_img = "zeros 0 0" and x = 2 and y = 3 and h = 4 and w = 9 and r = 7
        and r_major = 1 and r_minor = 1 and angle = 0
        and coord = "CoordList [(3, 3)]" and radius = 2 and spacing = None
        and nrows = "Some 1" and ncols = "Some 1"]
  note a2 = device_counter_on_failure [where s = state0 and cv = sample_cv and img = "zeros 10 10"
        and bin_img = "zeros 0 0" and x = 2 and y = 3 and h = 4 and w = 9 and r = 7
        and r_major = 1 and r_minor = 1 and angle = 0
        and coord = "CoordList [(3, 3), (6, 6), (0, 0)]" and radius = 2 and spacing = None
        and nrows = None and ncols = None]
  note a3 = device_counter_on_failure [where s = state0 and cv = sample_cv and img = "zeros 2 3"
        and bin_img = "Ndarray 3 [[0, 255, 7], [255, 255, 0]]" and x = 2 and y = 3 and h = 4 and w = 9 and r = 7
        and r_major = 1 and r_minor = 1 and angle = 0
        and coord = CoordOther and radius = 2 and spacing = None
        and nrows = None and ncols = None]
  note a4 = device_counter_on_failure [where s = state0 and cv = sample_cv and img = "zeros 7 7"
        and bin_img = "zeros 0 0" and x = 0 and y = 0 and h = 4 and w = 9 and r = 7
        and r_major = 2 and r_minor = 1 and angle = 0
        and coord = CoordOther and radius = 2 and spacing = None
        and nrows = None and ncols = None]
  have ok: "fst (circle sample_cv 3 3 2 (zeros 10 10) state0) \<noteq> Inl bounds_error"
      "fst (circle sample_cv 6 6 2 (zeros 10 10) state0) \<noteq> Inl bounds_error"
    by (simp_all add: circle_def shape2_zeros Let_def split: prod.splits)
  from a2 b cs obtain k where
    k: "k < 3"
      "device (snd (multi sample_cv (zeros 10 10) (CoordList [(3, 3), (6, 6), (0, 0)]) 2 None None None state0))
         = device state0 + 1 + (int k + 1)"
      "fst (circle sample_cv (fst (([(3, 3), (6, 6), (0, 0)] :: point list) ! k))
             (snd (([(3, 3), (6, 6), (0, 0)] :: point list) ! k))
             2 (zeros 10 10) state0) = Inl bounds_error"
    by (auto simp: numeral_3_eq_3)
  have "k = 2"
    using k(1,3) ok by (auto simp: numeral_3_eq_3 less_Suc_eq)
  then have four: "device (snd (multi sample_cv (zeros 10 10) (CoordList [(3, 3), (6, 6), (0, 0)]) 2 None None None state0)) = 4"
    using k(2) d by simp
  show ?thesis
    using a1 a3 a4 f r c e m d four by auto
qed

subsection \<open>The debug mode of a failing \<^verbatim>\<open>multi\<close>\<close>

text \<open>
  C10. When \<^verbatim>\<open>multi\<close> aborts with the bounds error of an inner circle placement or with
  the configuration error of the mode selection, the debug mode is left off, whatever it
  was before the call.
\<close>

theorem multi_error_leaves_debug_off:
  assumes "multi cv img coord radius spacing nrows ncols s = (Inl e, s')"
    and "e = bounds_error \<or> e = configuration_error"
  shows "debug s' = None"
proof -
  from multi_failure [OF assms(1)] assms(2) errors_distinct
  consider "s' = multi_enter s"
    | cs where "place_circles cv img radius cs (multi_locals0 img) (multi_enter s) = (Inl e, s')"
    by auto
  then show ?thesis
  proof cases
    case 1
    then show ?thesis by simp
  next
    case 2
    then show ?thesis
      using place_circles_debug [of cv img radius cs "multi_locals0 img" "multi_enter s"] by simp
  qed
qed

theorem multi_error_leaves_debug_off_witness:
  "debug state_plot = Some ''plot''
   \<and> fst (multi sample_cv (zeros 10 10) (CoordList [(3, 3)]) 2 None (Some 1) (Some 1) state_plot)
       = Inl configuration_error
   \<and> debug (snd (multi sample_cv (zeros 10 10) (CoordList [(3, 3)]) 2 None (Some 1) (Some 1) state_plot))
       = None
   \<and> fst (multi sample_cv (zeros 10 10) (CoordTuple (3, 3)) 2 (Some (4, 4)) (Some 2) (Some 3) state_plot)
       = Inl bounds_error
   \<and> debug (snd (multi sample_cv (zeros 10 10) (CoordTuple (3, 3)) 2 (Some (4, 4)) (Some 2) (Some 3) state_plot))
       = None"
proof -
  obtain s1 where m: "multi sample_cv (zeros 10 10) (CoordList [(3, 3)]) 2 None (Some 1) (Some 1) state_plot
             = (Inl configuration_error, s1)"
    by (simp add: multi_def multi_centers_def py_and_def configuration_error_def Let_def)
  obtain s2 where b: "multi sample_cv (zeros 10 10) (CoordTuple (3, 3)) 2 (Some (4, 4)) (Some 2) (Some 3) state_plot
             = (Inl bounds_error, s2)"
    by (simp add: multi_eval bounds_error_def state_plot_def split: prod.splits)
  have p: "debug state_plot = Some ''plot''" by (simp add: state_plot_def)
  show ?thesis
    using multi_error_leaves_debug_off [OF m] multi_error_leaves_debug_off [OF b] m b p by simp
qed

end
